theory Spec2Isabelle
  imports Main "HOL-Library.Char_ord" "HOL-Library.List_Lexorder" "HOL-Library.Sublist"
    "HOL-Library.AList"
begin

section \<open>The import policy gate (test\_import\_restrictions.py, demo\_import\_restrictions.py)\<close>

text \<open>
  Python strings are modelled as \<^typ>\<open>string\<close>, read as their UTF-8 bytes. The order on
  strings is the lexicographic order of the bytes, which is the order of the code points
  that Python's \<open>sorted\<close> uses on \<open>str\<close>.
\<close>

subsection \<open>The allow-list\<close>

text \<open>The literal \<open>ALLOWED_LIBRARIES\<close>; both scripts carry the same 88 names.\<close>

definition ALLOWED_LIBRARIES :: "string set" where
  "ALLOWED_LIBRARIES = set [
     ''sys'', ''os'', ''math'', ''random'', ''datetime'', ''time'', ''json'', ''csv'', ''io'',
     ''collections'', ''itertools'', ''functools'', ''operator'', ''re'', ''string'',
     ''textwrap'', ''unicodedata'', ''struct'', ''codecs'', ''base64'', ''binascii'',
     ''hashlib'', ''hmac'', ''secrets'', ''pathlib'', ''glob'', ''fnmatch'', ''tempfile'',
     ''shutil'', ''pickle'', ''shelve'', ''sqlite3'', ''gzip'', ''bz2'', ''lzma'', ''zipfile'',
     ''tarfile'', ''configparser'', ''argparse'', ''logging'', ''warnings'', ''traceback'',
     ''decimal'', ''fractions'', ''statistics'', ''enum'', ''typing'', ''copy'', ''pprint'',
     ''heapq'', ''bisect'', ''array'', ''queue'', ''threading'', ''multiprocessing'',
     ''subprocess'', ''socket'', ''ssl'', ''email'', ''urllib'', ''http'', ''html'',
     ''xml'', ''webbrowser'', ''uuid'', ''contextlib'', ''abc'', ''dataclasses'',
     ''numpy'', ''np'',
     ''pandas'', ''pd'',
     ''matplotlib'', ''plt'',
     ''scipy'',
     ''sklearn'', ''scikit-learn'',
     ''pdfplumber'',
     ''fitz'', ''pymupdf'',
     ''docx'', ''python-docx'',
     ''pptx'', ''python-pptx'',
     ''openpyxl'',
     ''chardet'',
     ''magic'', ''python-magic'']"

subsection \<open>The syntax tree, as far as the gate looks at it\<close>

text \<open>
  \<open>ast.alias\<close> (the word is an Isabelle keyword, hence \<open>import_alias\<close>) has the dotted
  source name and the optional bound name.
\<close>

record import_alias =
  name :: string
  asname :: "string option"

text \<open>
  Import statements are statements, and statements nest only inside the bodies of compound
  statements (function and class definitions, \<open>if\<close>, loops, \<open>try\<close>, \<open>with\<close>, \<open>match\<close>).
  \<open>Compound body\<close> stands for any of these with all the statements it contains;
  \<open>Other\<close> for a statement without nested statements. \<open>ImportFrom module names level\<close>
  has \<open>module = None\<close> for \<open>from . import y\<close>.
\<close>

datatype stmt =
    Import "import_alias list"
  | ImportFrom "string option" "import_alias list" nat
  | Compound "stmt list"
  | Other

text \<open>
  What \<open>ast.parse\<close> does with a text is not part of the repository: it raises
  \<open>SyntaxError\<close>, raises something else (\<open>ValueError\<close> for a NUL byte before
  Python 3.12, \<open>RecursionError\<close>, \<open>MemoryError\<close>), or returns the module.
\<close>

datatype parse_result =
    SyntaxError string
  | ParseRaises string
  | Module "stmt list"

subsection \<open>\<open>str.split\<close>, \<open>str.join\<close>, \<open>ast.walk\<close>\<close>

text \<open>\<open>s.split(c)\<close> for a one-character separator: never empty, \<open>''''\<close> gives \<open>['''']\<close>.\<close>

fun py_split :: "char \<Rightarrow> string \<Rightarrow> string list" where
  "py_split c [] = [[]]"
| "py_split c (x # xs) =
     (if x = c then [] # py_split c xs
      else (case py_split c xs of
              [] \<Rightarrow> [[x]]
            | w # ws \<Rightarrow> (x # w) # ws))"

text \<open>\<open>s.split('.')[0]\<close>; the list is never empty, so the index never fails.\<close>

definition split_first :: "string \<Rightarrow> string" where
  "split_first s = (case py_split (CHR ''.'') s of [] \<Rightarrow> [] | w # _ \<Rightarrow> w)"

fun py_join :: "string \<Rightarrow> string list \<Rightarrow> string" where
  "py_join sep [] = []"
| "py_join sep [x] = x"
| "py_join sep (x # y # ys) = x @ sep @ py_join sep (y # ys)"

text \<open>\<open>ast.iter_child_nodes\<close>, restricted to statements.\<close>

fun iter_child_nodes :: "stmt \<Rightarrow> stmt list" where
  "iter_child_nodes (Compound body) = body"
| "iter_child_nodes _ = []"

text \<open>
  \<open>ast.walk\<close> is a breadth-first traversal with a queue:
  \<^verbatim>\<open>
  todo = deque([node])
  while todo:
      node = todo.popleft()
      todo.extend(iter_child_nodes(node))
      yield node
  \<close>
  The queue starts with the module, whose children are its top-level statements; the
  module node itself is no import, so the model starts with the queue of its statements.
\<close>

fun stmt_weight :: "stmt \<Rightarrow> nat" where
  "stmt_weight (Compound body) = Suc (sum_list (map stmt_weight body))"
| "stmt_weight _ = 1"

function walk :: "stmt list \<Rightarrow> stmt list" where
  "walk [] = []"
| "walk (node # todo) = node # walk (todo @ iter_child_nodes node)"
  by pat_completeness auto
termination
proof (relation "measure (\<lambda>todo. sum_list (map stmt_weight todo))")
  show "wf (measure (\<lambda>todo. sum_list (map stmt_weight todo)))"
    by simp
next
  fix node :: stmt and todo :: "stmt list"
  show "(todo @ iter_child_nodes node, node # todo)
          \<in> measure (\<lambda>todo. sum_list (map stmt_weight todo))"
    by (cases node) simp_all
qed

subsection \<open>\<open>validate_imports\<close>\<close>

text \<open>
  One iteration of \<open>for node in ast.walk(tree)\<close>, on the set \<open>disallowed_imports\<close>.
  \<open>if node.module:\<close> is false for \<open>None\<close> and for the empty string.
\<close>

definition check_alias :: "import_alias \<Rightarrow> string set \<Rightarrow> string set" where
  "check_alias a disallowed =
     (let module_name = split_first (name a)
      in if module_name \<notin> ALLOWED_LIBRARIES then insert (name a) disallowed
         else disallowed)"

fun check_node :: "stmt \<Rightarrow> string set \<Rightarrow> string set" where
  "check_node (Import names) disallowed = fold check_alias names disallowed"
| "check_node (ImportFrom module names level) disallowed =
     (case module of
        None \<Rightarrow> disallowed
      | Some m \<Rightarrow>
          if m = [] then disallowed
          else (let module_name = split_first m
                in if module_name \<notin> ALLOWED_LIBRARIES then insert m disallowed
                   else disallowed))"
| "check_node _ disallowed = disallowed"

definition disallowed_imports :: "stmt list \<Rightarrow> string set" where
  "disallowed_imports tree = fold check_node (walk tree) {}"

definition violation_prefix :: string where
  "violation_prefix =
     ''Import restriction violation: The following imports are not allowed: ''"

text \<open>
  The version of test\_import\_restrictions.py. The parser is a parameter. \<open>Inl\<close> is an
  exception that leaves the function: only \<open>SyntaxError\<close> is caught.
\<close>

definition validate_imports :: "(string \<Rightarrow> parse_result) \<Rightarrow> string \<Rightarrow> string + bool \<times> string" where
  "validate_imports ast_parse code =
     (case ast_parse code of
        SyntaxError e \<Rightarrow> Inr (False, ''Syntax error in code: '' @ e)
      | ParseRaises e \<Rightarrow> Inl e
      | Module tree \<Rightarrow>
          (let disallowed = disallowed_imports tree
           in if disallowed \<noteq> {}
              then Inr (False,
                     violation_prefix @ py_join '', '' (sorted_list_of_set disallowed))
              else Inr (True, [])))"

text \<open>
  The version of demo\_import\_restrictions.py appends a fixed summary. Its f-string
  writes \<open>\\n\<close>, so the text has a backslash and an \<open>n\<close>, not a line break.
\<close>

definition bs_n :: string where
  "bs_n = [CHR 0x5C, CHR ''n'']"

definition allowed_summary :: string where
  "allowed_summary =
     bs_n @ bs_n @ ''Allowed libraries:'' @ bs_n
     @ ''- Standard Python library modules'' @ bs_n
     @ ''- numpy, pandas, matplotlib, scipy, scikit-learn'' @ bs_n
     @ ''- pdfplumber, pymupdf, python-docx, python-pptx'' @ bs_n
     @ ''- openpyxl, chardet, python-magic''"

definition validate_imports_demo :: "(string \<Rightarrow> parse_result) \<Rightarrow> string \<Rightarrow> string + bool \<times> string" where
  "validate_imports_demo ast_parse code =
     (case ast_parse code of
        SyntaxError e \<Rightarrow> Inr (False, ''Syntax error in code: '' @ e)
      | ParseRaises e \<Rightarrow> Inl e
      | Module tree \<Rightarrow>
          (let disallowed = disallowed_imports tree
           in if disallowed \<noteq> {}
              then Inr (False,
                     violation_prefix @ py_join '', '' (sorted_list_of_set disallowed)
                     @ allowed_summary)
              else Inr (True, [])))"

subsection \<open>What a snippet imports, in the words of the specification\<close>

text \<open>
  The module names a statement refers to, at any depth: every name of a plain import, and
  the module of a from-import that has one.
\<close>

fun imported_modules :: "stmt \<Rightarrow> string set" where
  "imported_modules (Import names) = name ` set names"
| "imported_modules (ImportFrom module names level) =
     (case module of None \<Rightarrow> {} | Some m \<Rightarrow> if m = [] then {} else {m})"
| "imported_modules (Compound body) = (\<Union>s \<in> set body. imported_modules s)"
| "imported_modules Other = {}"

definition snippet_imports :: "stmt list \<Rightarrow> string set" where
  "snippet_imports tree = (\<Union>s \<in> set tree. imported_modules s)"

text \<open>The top-level segment: the text before the first dot.\<close>

definition top_level :: "string \<Rightarrow> string" where
  "top_level m = takeWhile (\<lambda>c. c \<noteq> CHR ''.'') m"

text \<open>
  The set that the second testable property of the specification names: the top-level
  names of the referenced modules that are not allowed.
\<close>

definition disallowed_top_level_names :: "stmt list \<Rightarrow> string set" where
  "disallowed_top_level_names tree =
     top_level ` {m \<in> snippet_imports tree. top_level m \<notin> ALLOWED_LIBRARIES}"

text \<open>
  The modules of a statement itself, without those of the statements nested in it: what
  one iteration of the loop can see.
\<close>

definition own_modules :: "stmt \<Rightarrow> string set" where
  "own_modules s = (case s of Compound body \<Rightarrow> {} | _ \<Rightarrow> imported_modules s)"

text \<open>
  A tree without its bare relative from-imports (\<open>from . import y\<close>), at every depth.
\<close>

fun strip_bare :: "stmt list \<Rightarrow> stmt list" where
  "strip_bare [] = []"
| "strip_bare (ImportFrom None names level # rest) = strip_bare rest"
| "strip_bare (Compound body # rest) = Compound (strip_bare body) # strip_bare rest"
| "strip_bare (s # rest) = s # strip_bare rest"

section \<open>The Docker sandbox (src/dolphin\_mcp/docker\_sandbox.py)\<close>

subsection \<open>Paths (\<open>pathlib.PurePosixPath\<close>)\<close>

text \<open>
  A path is its root and its components. \<open>PurePosixPath\<close> keeps a root of exactly two
  slashes apart from the root of one slash, drops empty components and \<open>.\<close>, and keeps
  \<open>..\<close>: nothing is resolved.
\<close>

datatype anchor = Relative | Root | Root2

record ppath =
  anchor :: anchor
  parts :: "string list"

definition parse_anchor :: "string \<Rightarrow> anchor" where
  "parse_anchor s =
     (if s = [] \<or> hd s \<noteq> CHR ''/'' then Relative
      else if length (takeWhile (\<lambda>c. c = CHR ''/'') s) = 2 then Root2
      else Root)"

definition parse_path :: "string \<Rightarrow> ppath" where
  "parse_path s =
     \<lparr>anchor = parse_anchor s,
      parts = filter (\<lambda>x. x \<noteq> [] \<and> x \<noteq> ''.'') (py_split (CHR ''/'') s)\<rparr>"

text \<open>The operator \<open>/\<close>: an absolute right operand replaces the left one.\<close>

definition joinpath :: "ppath \<Rightarrow> ppath \<Rightarrow> ppath" where
  "joinpath p q =
     (if anchor q \<noteq> Relative then q
      else \<lparr>anchor = anchor p, parts = parts p @ parts q\<rparr>)"

text \<open>
  \<open>is_relative_to\<close> compares the root and the components of the two paths as they are
  written: the other path must be a prefix.
\<close>

definition is_relative_to :: "ppath \<Rightarrow> ppath \<Rightarrow> bool" where
  "is_relative_to p other = (anchor p = anchor other \<and> prefix (parts other) (parts p))"

text \<open>\<open>str(path)\<close>.\<close>

definition path_str :: "ppath \<Rightarrow> string" where
  "path_str p =
     (case anchor p of
        Relative \<Rightarrow> (if parts p = [] then ''.'' else py_join ''/'' (parts p))
      | Root \<Rightarrow> ''/'' @ py_join ''/'' (parts p)
      | Root2 \<Rightarrow> ''//'' @ py_join ''/'' (parts p))"

definition path_name :: "ppath \<Rightarrow> string" where
  "path_name p = (if parts p = [] then [] else last (parts p))"

subsection \<open>The file system of the host\<close>

text \<open>
  Directories and regular files under their resolved absolute location (the list of
  names from the root; the root itself is \<open>[]\<close> and always a directory), without
  symbolic links. A file holds bytes. \<open>denied\<close> are the locations the process has no
  permission on: such a directory cannot be searched, such a file cannot be opened for
  reading. \<open>decode_text\<close> is the decoding of the locale that \<open>read_text\<close> uses; it is
  \<open>None\<close> on bytes that are no text.
\<close>

type_synonym bytes = string

datatype node = Dir | File bytes

record filesystem =
  nodes :: "string list \<rightharpoonup> node"
  cwd :: "string list"
  denied :: "string list set"
  decode_text :: "bytes \<Rightarrow> string option"

definition node_at :: "filesystem \<Rightarrow> string list \<Rightarrow> node option" where
  "node_at fs loc = (if loc = [] then Some Dir else nodes fs loc)"

text \<open>
  The error numbers of the system calls. Python raises them as \<open>OSError\<close>, in the
  subclasses \<open>FileNotFoundError\<close> (\<open>ENOENT\<close>), \<open>NotADirectoryError\<close> (\<open>ENOTDIR\<close>),
  \<open>PermissionError\<close> (\<open>EACCES\<close>) and \<open>IsADirectoryError\<close> (\<open>EISDIR\<close>).
\<close>

datatype errno = ENOENT | ENOTDIR | ENAMETOOLONG | EACCES | EISDIR

definition NAME_MAX :: nat where
  "NAME_MAX = 255"

definition PATH_MAX :: nat where
  "PATH_MAX = 4096"

text \<open>
  The operating system resolves a path component by component: each step needs the
  location reached so far to be a directory that may be searched, \<open>..\<close> goes to the
  parent, and a name longer than \<open>NAME_MAX\<close> is refused.
\<close>

fun os_walk :: "filesystem \<Rightarrow> string list \<Rightarrow> string list \<Rightarrow> errno + string list" where
  "os_walk fs loc [] = (if node_at fs loc = None then Inl ENOENT else Inr loc)"
| "os_walk fs loc (c # cs) =
     (case node_at fs loc of
        None \<Rightarrow> Inl ENOENT
      | Some (File content) \<Rightarrow> Inl ENOTDIR
      | Some Dir \<Rightarrow>
          if loc \<in> denied fs then Inl EACCES
          else if c = ''..'' then os_walk fs (butlast loc) cs
          else if NAME_MAX < length c then Inl ENAMETOOLONG
          else os_walk fs (loc @ [c]) cs)"

datatype read_error =
    FileNotFoundError string
  | ValueError string
  | OSError errno
  | UnicodeDecodeError

text \<open>
  What a system call on \<open>str(path)\<close> finds: Python refuses a NUL character with
  \<open>ValueError\<close> before the call, the system refuses a text of \<open>PATH_MAX\<close> bytes or more,
  and then resolves it.
\<close>

definition os_lookup :: "filesystem \<Rightarrow> ppath \<Rightarrow> read_error + string list" where
  "os_lookup fs p =
     (if CHR 0x00 \<in> set (path_str p) then Inl (ValueError ''embedded null byte'')
      else if PATH_MAX \<le> length (path_str p) then Inl (OSError ENAMETOOLONG)
      else (case os_walk fs (if anchor p = Relative then cwd fs else []) (parts p) of
              Inl e \<Rightarrow> Inl (OSError e)
            | Inr loc \<Rightarrow> Inr loc))"

text \<open>
  \<open>Path.exists\<close>: \<open>stat\<close>, with \<open>ValueError\<close> and the error numbers \<open>ENOENT\<close> and
  \<open>ENOTDIR\<close> turned into \<open>False\<close>; any other \<open>OSError\<close> is raised again.
\<close>

definition path_exists :: "filesystem \<Rightarrow> ppath \<Rightarrow> read_error + bool" where
  "path_exists fs p =
     (case os_lookup fs p of
        Inr loc \<Rightarrow> Inr True
      | Inl (ValueError m) \<Rightarrow> Inr False
      | Inl (OSError ENOENT) \<Rightarrow> Inr False
      | Inl (OSError ENOTDIR) \<Rightarrow> Inr False
      | Inl e \<Rightarrow> Inl e)"

text \<open>
  Reading in text mode turns \<open>CR LF\<close> and a lone \<open>CR\<close> into \<open>LF\<close>.
\<close>

fun universal_newlines :: "string \<Rightarrow> string" where
  "universal_newlines [] = []"
| "universal_newlines [c] = [if c = CHR 0x0D then CHR 0x0A else c]"
| "universal_newlines (c # d # ds) =
     (if c = CHR 0x0D \<and> d = CHR 0x0A then CHR 0x0A # universal_newlines ds
      else if c = CHR 0x0D then CHR 0x0A # universal_newlines (d # ds)
      else c # universal_newlines (d # ds))"

text \<open>\<open>Path.read_text\<close>: open, read, decode, translate the line ends.\<close>

definition read_text :: "filesystem \<Rightarrow> ppath \<Rightarrow> read_error + string" where
  "read_text fs p =
     (case os_lookup fs p of
        Inl e \<Rightarrow> Inl e
      | Inr loc \<Rightarrow>
          (case node_at fs loc of
             None \<Rightarrow> Inl (OSError ENOENT)
           | Some Dir \<Rightarrow> Inl (OSError EISDIR)
           | Some (File content) \<Rightarrow>
               if loc \<in> denied fs then Inl (OSError EACCES)
               else (case decode_text fs content of
                       None \<Rightarrow> Inl UnicodeDecodeError
                     | Some text \<Rightarrow> Inr (universal_newlines text))))"

subsection \<open>\<open>read_session_file\<close>\<close>

text \<open>
  \<open>Inl\<close> is the exception raised: by \<open>exists\<close>, by the two \<open>raise\<close> statements, or by
  \<open>read_text\<close>.
\<close>

definition read_session_file :: "filesystem \<Rightarrow> ppath \<Rightarrow> string \<Rightarrow> read_error + string" where
  "read_session_file fs session_dir filename =
     (let file_path = joinpath session_dir (parse_path filename)
      in case path_exists fs file_path of
           Inl e \<Rightarrow> Inl e
         | Inr found \<Rightarrow>
             if \<not> found
             then Inl (FileNotFoundError (''File not found: '' @ filename))
             else if \<not> is_relative_to file_path session_dir
             then Inl (ValueError ''Path traversal attempt detected'')
             else read_text fs file_path)"

subsection \<open>Values, exceptions and the outside world\<close>

text \<open>The values a context dictionary holds (\<open>Any\<close>), as far as the code tells them apart.\<close>

datatype pyval = PyNone | PyStr string | PyInt int

fun truthy :: "pyval \<Rightarrow> bool" where
  "truthy PyNone = False"
| "truthy (PyStr s) = (s \<noteq> [])"
| "truthy (PyInt i) = (i \<noteq> 0)"

text \<open>
  A \<open>dict\<close> with string keys, in insertion order: \<open>d.get(k)\<close> is \<open>None\<close> for a missing
  key, \<open>d[k] = v\<close> replaces the value of a present key in place and appends a new one.
\<close>

type_synonym context_dict = "(string \<times> pyval) list"

definition dict_get :: "context_dict \<Rightarrow> string \<Rightarrow> pyval" where
  "dict_get d k = (case map_of d k of None \<Rightarrow> PyNone | Some v \<Rightarrow> v)"

definition dict_set :: "context_dict \<Rightarrow> string \<Rightarrow> pyval \<Rightarrow> context_dict" where
  "dict_set d k v = AList.update k v d"

text \<open>
  The exceptions below \<open>Exception\<close> that the code names or that its collaborators are
  documented to raise: \<open>docker.errors.ContainerError\<close> with its \<open>stderr\<close> attribute,
  \<open>docker.errors.ImageNotFound\<close>, the timeout of \<open>Container.wait\<close>
  (\<open>requests.exceptions.ReadTimeout\<close> or \<open>ConnectionError\<close>), \<open>RuntimeError\<close> with its
  message, and any other with its name. Exceptions outside \<open>Exception\<close>
  (\<open>KeyboardInterrupt\<close>, \<open>SystemExit\<close>) are asynchronous and not modelled.
\<close>

datatype exn =
    ContainerError "bytes option"
  | ImageNotFound
  | WaitTimeout
  | RuntimeError string
  | OtherException string

definition nl :: string where
  "nl = [CHR 0x0A]"

definition quote :: string where
  "quote = [CHR 0x27]"

text \<open>
  What the collaborators do during one call: the uuid generator, the file system calls on
  the staged script, the Docker client, \<open>bytes.decode\<close>, \<open>repr\<close> and
  \<open>traceback.format_exc\<close>. A field \<open>_raises\<close> is \<open>None\<close> when the call returns.
  A socket location is given by whether the socket exists, whether \<open>docker.DockerClient\<close>
  raises for it, and whether \<open>ping\<close> raises. \<open>run_time\<close> is the number of seconds after
  which the container stops (\<open>None\<close>: it never does), \<open>wait_result\<close> what \<open>wait\<close>
  gives when the container stops in time: the exit status or an error of the engine.
  \<open>script_exists\<close> is what \<open>script_path.exists()\<close> does in the outer \<open>finally\<close>: it
  answers, or it raises an \<open>OSError\<close> that it does not pass over (\<open>EACCES\<close>,
  \<open>ENAMETOOLONG\<close>).
\<close>

record world =
  uuid4_str :: string
  uuid4_hex8 :: string
  mkdir_raises :: "exn option"
  from_env_raises :: bool
  from_env_ping_raises :: bool
  socket_locations :: "(bool \<times> bool \<times> bool) list"
  images_get_raises :: "exn option"
  write_text_raises :: "exn option"
  create_result :: "exn + nat"
  start_raises :: "exn option"
  run_time :: "int option"
  wait_result :: "exn + int"
  logs_result :: "exn + bytes"
  remove_raises :: "exn option"
  script_exists :: "exn + bool"
  decode_utf8 :: "bytes \<Rightarrow> string option"
  repr :: "context_dict \<Rightarrow> string"
  format_exc :: "exn \<Rightarrow> string"

subsection \<open>The constructor of \<open>DockerSandboxExecutor\<close>\<close>

record init_args =
  arg_session_id :: pyval
  arg_sandbox_base_dir :: string
  arg_container_mount_path :: string
  arg_image_name :: string
  arg_image_tag :: string
  arg_memory_limit :: string
  arg_cpu_quota :: int
  arg_enable_network :: bool
  arg_timeout :: int

definition default_args :: init_args where
  "default_args =
     \<lparr>arg_session_id = PyNone,
      arg_sandbox_base_dir = ''/tmp/sandboxes'',
      arg_container_mount_path = ''/sandbox'',
      arg_image_name = ''dolphin-python-sandbox'',
      arg_image_tag = ''latest'',
      arg_memory_limit = ''512m'',
      arg_cpu_quota = 100000,
      arg_enable_network = False,
      arg_timeout = 30\<rparr>"

record executor =
  session_id :: string
  sandbox_base_dir :: ppath
  container_mount_path :: string
  image_name :: string
  image_tag :: string
  full_image_name :: string
  memory_limit :: string
  cpu_quota :: int
  enable_network :: bool
  timeout :: int
  session_dir :: ppath
  docker_client :: nat

text \<open>
  The loop over the socket locations. A client is named by a number (0 for
  \<open>docker.from_env()\<close>, \<open>i + 1\<close> for the location \<open>i\<close>). When \<open>docker.DockerClient\<close>
  raises, nothing is assigned and the loop goes on; \<open>docker_client\<close> is assigned before
  \<open>ping\<close>, so a client whose \<open>ping\<close> raised stays in the variable.
\<close>

fun try_sockets :: "(bool \<times> bool \<times> bool) list \<Rightarrow> nat \<Rightarrow> nat option \<Rightarrow> nat option" where
  "try_sockets [] i client = client"
| "try_sockets ((sock_exists, client_raises, ping_raises) # rest) i client =
     (if sock_exists
      then (if client_raises then try_sockets rest (Suc i) client
            else if ping_raises then try_sockets rest (Suc i) (Some (Suc i))
            else Some (Suc i))
      else try_sockets rest (Suc i) client)"

definition connect :: "world \<Rightarrow> nat option" where
  "connect w =
     (if from_env_raises w then try_sockets (socket_locations w) 0 None
      else if from_env_ping_raises w then try_sockets (socket_locations w) 0 (Some 0)
      else Some 0)"

definition ensure_image_exists :: "world \<Rightarrow> string \<Rightarrow> exn option" where
  "ensure_image_exists w full =
     (case images_get_raises w of
        None \<Rightarrow> None
      | Some ImageNotFound \<Rightarrow>
          Some (RuntimeError
            (''Docker image '' @ quote @ full @ quote @ '' not found. ''
             @ ''Build it with: docker build -f Dockerfile.sandbox -t '' @ full @ '' .''))
      | Some e \<Rightarrow> Some e)"

text \<open>
  \<open>__init__\<close>. \<open>Inl\<close> is the exception that leaves the constructor. The path operator
  \<open>/\<close> raises \<open>TypeError\<close> on a session id that is no string, and \<open>mkdir\<close> comes
  before the connection. The bare \<open>except:\<close> clauses swallow whatever the connection
  attempts raise, so the only exception that reaches the outer handlers is the
  \<open>RuntimeError\<close> for a missing client; it is no \<open>DockerException\<close>, and the handler for
  \<open>Exception\<close> raises it again behind \<open>Docker is not available:\<close>.
\<close>

definition DockerSandboxExecutor_init :: "world \<Rightarrow> init_args \<Rightarrow> exn + executor" where
  "DockerSandboxExecutor_init w a =
     (let sid = (if truthy (arg_session_id a) then arg_session_id a else PyStr (uuid4_str w));
          base = parse_path (arg_sandbox_base_dir a);
          full = arg_image_name a @ '':'' @ arg_image_tag a
      in case sid of
           PyStr s \<Rightarrow>
             (case mkdir_raises w of
                Some e \<Rightarrow> Inl e
              | None \<Rightarrow>
                  (case connect w of
                     None \<Rightarrow>
                       Inl (RuntimeError
                              ''Docker is not available: Could not connect to Docker daemon'')
                   | Some client \<Rightarrow>
                       (case ensure_image_exists w full of
                          Some e \<Rightarrow> Inl e
                        | None \<Rightarrow>
                            Inr \<lparr>session_id = s,
                                 sandbox_base_dir = base,
                                 container_mount_path = arg_container_mount_path a,
                                 image_name = arg_image_name a,
                                 image_tag = arg_image_tag a,
                                 full_image_name = full,
                                 memory_limit = arg_memory_limit a,
                                 cpu_quota = arg_cpu_quota a,
                                 enable_network = arg_enable_network a,
                                 timeout = arg_timeout a,
                                 session_dir = joinpath base (parse_path s),
                                 docker_client = client\<rparr>)))
         | _ \<Rightarrow> Inl (OtherException ''TypeError''))"

subsection \<open>\<open>_prepare_script\<close>\<close>

text \<open>\<open>if context:\<close> is false for \<open>None\<close> and for the empty dictionary.\<close>

definition prepare_script :: "world \<Rightarrow> string \<Rightarrow> context_dict option \<Rightarrow> string" where
  "prepare_script w code context =
     py_join nl
       ([''#!/usr/bin/env python3'',
         ''# Sandboxed Python execution'',
         ''import sys'',
         ''import json'',
         ''import traceback'',
         []]
        @ (case context of
             None \<Rightarrow> []
           | Some c \<Rightarrow>
               if c = [] then []
               else [''# Load context'',
                     ''import pickle'',
                     ''context = '' @ repr w c,
                     ''# Inject context into globals'',
                     ''globals().update(context)'',
                     []])
        @ [''# User code'',
           ''try:'',
           ''    # Execute user code'']
        @ map (\<lambda>line. ''    '' @ line) (py_split (CHR 0x0A) code)
        @ [[],
           ''except Exception as e:'',
           ''    print('' @ quote @ ''EXECUTION ERROR:'' @ quote @ '', file=sys.stderr)'',
           ''    traceback.print_exc()'',
           ''    sys.exit(1)''])"

subsection \<open>The container engine\<close>

text \<open>The keyword arguments of \<open>containers.create\<close>.\<close>

record create_args =
  image :: string
  command :: "string list"
  volumes :: "(string \<times> string \<times> string) list"
  network_mode :: string
  mem_limit :: string
  cpu_quota_arg :: int
  user :: string
  security_opt :: "string list"
  cap_drop :: "string list"
  read_only :: bool
  tmpfs :: "(string \<times> string) list"

text \<open>The calls that change something outside, in the order they are made.\<close>

datatype call =
    WriteText ppath string
  | ContainersCreate create_args
  | ContainerStart nat
  | ContainerWait nat int
  | ContainerLogs nat
  | ContainerRemove nat
  | Unlink ppath

text \<open>The containers that exist in the engine, and the calls made so far.\<close>

record daemon =
  containers :: "nat set"
  calls :: "call list"

definition log :: "call \<Rightarrow> daemon \<Rightarrow> daemon" where
  "log c d = d\<lparr>calls := calls d @ [c]\<rparr>"

text \<open>
  \<open>Container.wait(timeout=t)\<close>: a timeout of 0 or less is refused with \<open>ValueError\<close>
  before anything is awaited; otherwise the call blocks until the container stops and
  raises when the timeout is exceeded first.
\<close>

definition container_wait :: "world \<Rightarrow> int \<Rightarrow> exn + int" where
  "container_wait w t =
     (if t \<le> 0 then Inl (OtherException ''ValueError'')
      else (case run_time w of
              None \<Rightarrow> Inl WaitTimeout
            | Some seconds \<Rightarrow> if t < seconds then Inl WaitTimeout else wait_result w))"

subsection \<open>\<open>execute_code\<close>\<close>

definition create_kwargs :: "executor \<Rightarrow> ppath \<Rightarrow> create_args" where
  "create_kwargs self script_path =
     \<lparr>image = full_image_name self,
      command = [''python3'', container_mount_path self @ ''/'' @ path_name script_path],
      volumes = [(path_str (session_dir self), container_mount_path self, ''rw'')],
      network_mode = (if \<not> enable_network self then ''none'' else ''bridge''),
      mem_limit = memory_limit self,
      cpu_quota_arg = cpu_quota self,
      user = ''sandbox'',
      security_opt = [''no-new-privileges''],
      cap_drop = [''ALL''],
      read_only = False,
      tmpfs = [(''/tmp'', ''size=100M,mode=1777'')]\<rparr>"

text \<open>
  The body of the inner \<open>try\<close>: \<open>start\<close>, \<open>wait\<close>, \<open>logs\<close>. The exit status that
  \<open>wait\<close> returns is bound to a variable that is never read.
\<close>

definition container_run :: "world \<Rightarrow> executor \<Rightarrow> nat \<Rightarrow> daemon \<Rightarrow> (exn + bytes) \<times> daemon" where
  "container_run w self c d =
     (let d1 = log (ContainerStart c) d
      in case start_raises w of
           Some e \<Rightarrow> (Inl e, d1)
         | None \<Rightarrow>
             (let d2 = log (ContainerWait c (timeout self)) d1
              in case container_wait w (timeout self) of
                   Inl e \<Rightarrow> (Inl e, d2)
                 | Inr exit_status \<Rightarrow>
                     (let d3 = log (ContainerLogs c) d2
                      in case logs_result w of
                           Inl e \<Rightarrow> (Inl e, d3)
                         | Inr result \<Rightarrow> (Inr result, d3))))"

text \<open>
  The inner \<open>finally\<close>: \<open>container.remove(force=True)\<close>; an exception of the removal is
  passed over, and the container is then still there.
\<close>

definition container_remove :: "world \<Rightarrow> nat \<Rightarrow> daemon \<Rightarrow> daemon" where
  "container_remove w c d =
     (case remove_raises w of
        None \<Rightarrow> log (ContainerRemove c) (d\<lparr>containers := containers d - {c}\<rparr>)
      | Some e \<Rightarrow> log (ContainerRemove c) d)"

text \<open>The body of the outer \<open>try\<close>, up to \<open>return output\<close>.\<close>

definition execute_try ::
  "world \<Rightarrow> executor \<Rightarrow> ppath \<Rightarrow> string \<Rightarrow> context_dict option \<Rightarrow> daemon
     \<Rightarrow> (exn + string) \<times> daemon" where
  "execute_try w self script_path code context d =
     (let full_script = prepare_script w code context;
          d1 = log (WriteText script_path full_script) d
      in case write_text_raises w of
           Some e \<Rightarrow> (Inl e, d1)
         | None \<Rightarrow>
             (let d2 = log (ContainersCreate (create_kwargs self script_path)) d1
              in case create_result w of
                   Inl e \<Rightarrow> (Inl e, d2)
                 | Inr c \<Rightarrow>
                     (let d3 = d2\<lparr>containers := insert c (containers d2)\<rparr>;
                          (r, d4) = container_run w self c d3;
                          d5 = container_remove w c d4
                      in case r of
                           Inl e \<Rightarrow> (Inl e, d5)
                         | Inr result \<Rightarrow>
                             (case decode_utf8 w result of
                                None \<Rightarrow> (Inl (OtherException ''UnicodeDecodeError''), d5)
                              | Some output \<Rightarrow> (Inr output, d5)))))"

text \<open>
  The two handlers. The first formats \<open>e.stderr.decode('utf-8')\<close>, which raises inside
  the handler when \<open>stderr\<close> is \<open>None\<close> or no UTF-8; that exception leaves the method.
\<close>

definition execute_except :: "world \<Rightarrow> exn \<Rightarrow> exn + string" where
  "execute_except w e =
     (case e of
        ContainerError stderr \<Rightarrow>
          (case stderr of
             None \<Rightarrow> Inl (OtherException ''AttributeError'')
           | Some b \<Rightarrow>
               (case decode_utf8 w b of
                  None \<Rightarrow> Inl (OtherException ''UnicodeDecodeError'')
                | Some text \<Rightarrow>
                    Inr (''EXECUTION ERROR:'' @ nl @ ''Container execution error:'' @ nl @ text)))
      | _ \<Rightarrow> Inr (''ERROR:'' @ nl @ ''Unexpected error:'' @ nl @ format_exc w e))"

text \<open>The staged script: \<open>self.session_dir / f"script_{uuid.uuid4().hex[:8]}.py"\<close>.\<close>

definition script_path_of :: "world \<Rightarrow> executor \<Rightarrow> ppath" where
  "script_path_of w self =
     joinpath (session_dir self) (parse_path (''script_'' @ uuid4_hex8 w @ ''.py''))"

text \<open>
  \<open>execute_code\<close>: the staged script gets a fresh name, the body runs, a handler turns an
  exception into a text, and the outer \<open>finally\<close> unlinks the script when it exists (a
  failure of the unlinking is only logged). \<open>script_path.exists()\<close> stands outside the
  inner \<open>try\<close>: when it raises, its exception replaces whatever the method was about to
  return.
\<close>

definition execute_code ::
  "world \<Rightarrow> executor \<Rightarrow> string \<Rightarrow> context_dict option \<Rightarrow> daemon
     \<Rightarrow> (exn + string) \<times> daemon" where
  "execute_code w self code context d =
     (let script_path = script_path_of w self;
          (r, d1) = execute_try w self script_path code context d;
          returned = (case r of Inr output \<Rightarrow> Inr output | Inl e \<Rightarrow> execute_except w e)
      in case script_exists w of
           Inl e \<Rightarrow> (Inl e, d1)
         | Inr found \<Rightarrow>
             (returned, if found then log (Unlink script_path) d1 else d1))"

subsection \<open>\<open>sandboxed_python_interpreter\<close>\<close>

definition SESSION_KEY :: string where
  "SESSION_KEY = ''__sandbox_session_id__''"

text \<open>
  The first statement: the session id to use and the context dictionary afterwards. The
  parameter \<open>session_id\<close> (here \<open>sid_arg\<close>, the name being a field of the executor) is
  \<open>PyNone\<close> when the caller passes none.
\<close>

definition resolve_session_id :: "world \<Rightarrow> context_dict \<Rightarrow> pyval \<Rightarrow> pyval \<times> context_dict" where
  "resolve_session_id w context sid_arg =
     (if sid_arg = PyNone
      then (let from_context = dict_get context SESSION_KEY
            in if from_context = PyNone
               then (PyStr (uuid4_str w), dict_set context SESSION_KEY (PyStr (uuid4_str w)))
               else (from_context, context))
      else (sid_arg, context))"

text \<open>
  The whole function: the value returned (\<open>Inl\<close> would be an exception that reaches the
  caller), the caller's dictionary afterwards, and the engine afterwards.
\<close>

definition sandboxed_python_interpreter ::
  "world \<Rightarrow> string \<Rightarrow> context_dict \<Rightarrow> pyval \<Rightarrow> string \<Rightarrow> string \<Rightarrow> daemon
     \<Rightarrow> (exn + string) \<times> context_dict \<times> daemon" where
  "sandboxed_python_interpreter w code context sid_arg img tag d =
     (let (sid, context') = resolve_session_id w context sid_arg
      in case DockerSandboxExecutor_init w
                (default_args\<lparr>arg_session_id := sid, arg_image_name := img, arg_image_tag := tag\<rparr>) of
           Inl e \<Rightarrow> (Inr (''SANDBOX ERROR:'' @ nl @ format_exc w e), context', d)
         | Inr executor \<Rightarrow>
             (case execute_code w executor code (Some context') d of
                (Inl e, d') \<Rightarrow> (Inr (''SANDBOX ERROR:'' @ nl @ format_exc w e), context', d')
              | (Inr output, d') \<Rightarrow> (Inr output, context', d')))"

subsection \<open>The faults of a world\<close>




subsection \<open>Concrete worlds\<close>

text \<open>
  A world in which everything works and the container prints \<open>4\<close>; the same world with a
  container that runs for 31 seconds, with a container whose output is the text of the
  catch-all handler, with a container that exits with status 1, with an engine that
  refuses to create the container, with a timed-out container that had already printed
  something, and with a session directory of another account (created before, so that
  \<open>mkdir\<close> passes, and closed to this process: \<open>write_text\<close> and \<open>exists\<close> both raise
  \<open>PermissionError\<close>). The executor is the one the constructor builds from the defaults
  for the session \<open>s1\<close>.
\<close>

definition world_ok :: world where
  "world_ok =
     \<lparr>uuid4_str = ''6f1c2a9e-0d3b-4c57-9a41-2f8e7b6d5c10'',
      uuid4_hex8 = ''a1b2c3d4'',
      mkdir_raises = None,
      from_env_raises = False,
      from_env_ping_raises = False,
      socket_locations = [(False, False, False), (True, False, False)],
      images_get_raises = None,
      write_text_raises = None,
      create_result = Inr 7,
      start_raises = None,
      run_time = Some 1,
      wait_result = Inr 0,
      logs_result = Inr (''4'' @ nl),
      remove_raises = None,
      script_exists = Inr True,
      decode_utf8 = Some,
      repr = (\<lambda>c. ''{...}''),
      format_exc = (\<lambda>e. ''Traceback (most recent call last): ...'')\<rparr>"

definition world_timeout :: world where
  "world_timeout = world_ok\<lparr>run_time := Some 31\<rparr>"

definition world_echo :: world where
  "world_echo =
     world_ok\<lparr>logs_result :=
       Inr (''ERROR:'' @ nl @ ''Unexpected error:'' @ nl @ ''Traceback (most recent call last): ...'')\<rparr>"

definition example_executor :: executor where
  "example_executor =
     \<lparr>session_id = ''s1'',
      sandbox_base_dir = parse_path ''/tmp/sandboxes'',
      container_mount_path = ''/sandbox'',
      image_name = ''dolphin-python-sandbox'',
      image_tag = ''latest'',
      full_image_name = ''dolphin-python-sandbox:latest'',
      memory_limit = ''512m'',
      cpu_quota = 100000,
      enable_network = False,
      timeout = 30,
      session_dir = parse_path ''/tmp/sandboxes/s1'',
      docker_client = 0\<rparr>"

definition no_daemon :: daemon where
  "no_daemon = \<lparr>containers = {}, calls = []\<rparr>"

text \<open>
  A host with two sessions, \<open>s1\<close> holding \<open>r.txt\<close> and \<open>s2\<close> holding \<open>secret.txt\<close>.
\<close>

definition example_fs :: filesystem where
  "example_fs =
     \<lparr>nodes = map_of
        [([''tmp''], Dir),
         ([''tmp'', ''sandboxes''], Dir),
         ([''tmp'', ''sandboxes'', ''s1''], Dir),
         ([''tmp'', ''sandboxes'', ''s1'', ''r.txt''], File ''hi''),
         ([''tmp'', ''sandboxes'', ''s2''], Dir),
         ([''tmp'', ''sandboxes'', ''s2'', ''secret.txt''], File ''top secret''),
         ([''etc''], Dir),
         ([''etc'', ''passwd''], File ''root:x:0:0'')],
      cwd = [],
      denied = {},
      decode_text = Some\<rparr>"





section \<open>Properties of the import policy gate\<close>

subsection \<open>The loop computes the disallowed modules of the snippet\<close>

lemma py_split_not_Nil: "py_split c s \<noteq> []"
  by (induction s) (auto split: list.splits)

lemma hd_py_split: "hd (py_split c s) = takeWhile (\<lambda>x. x \<noteq> c) s"
  by (induction s) (auto split: list.splits simp: py_split_not_Nil)

lemma split_first_top_level: "split_first s = top_level s"
  using hd_py_split [of "CHR ''.''" s] py_split_not_Nil [of "CHR ''.''" s]
  by (auto simp: split_first_def top_level_def split: list.splits)

lemma fold_check_alias:
  "fold check_alias names D = D \<union> {m \<in> name ` set names. top_level m \<notin> ALLOWED_LIBRARIES}"
  by (induction names arbitrary: D) (auto simp: check_alias_def split_first_top_level Let_def)

lemma check_node_eq:
  "check_node s D = D \<union> {m \<in> own_modules s. top_level m \<notin> ALLOWED_LIBRARIES}"
  by (cases s) (auto simp: own_modules_def fold_check_alias split_first_top_level Let_def split: option.splits)

lemma fold_check_node:
  "fold check_node xs D = D \<union> {m \<in> (\<Union>s \<in> set xs. own_modules s). top_level m \<notin> ALLOWED_LIBRARIES}"
proof (induction xs arbitrary: D)
  case Nil
  then show ?case by simp
next
  case (Cons x xs)
  show ?case
    unfolding fold_simps Cons.IH check_node_eq [of x D] by auto
qed

lemma imported_modules_unfold:
  "imported_modules s = own_modules s \<union> (\<Union>t \<in> set (iter_child_nodes s). imported_modules t)"
  by (cases s) (simp_all add: own_modules_def)

lemma walk_modules:
  "(\<Union>s \<in> set (walk todo). own_modules s) = (\<Union>s \<in> set todo. imported_modules s)"
proof (induction todo rule: walk.induct)
  case 1
  then show ?case by simp
next
  case (2 node todo)
  have "(\<Union>s \<in> set (walk (node # todo)). own_modules s)
          = own_modules node \<union> (\<Union>s \<in> set (walk (todo @ iter_child_nodes node)). own_modules s)"
    by simp
  also have "\<dots> = own_modules node \<union> (\<Union>s \<in> set (todo @ iter_child_nodes node). imported_modules s)"
    using "2.IH" by simp
  also have "\<dots> = (\<Union>s \<in> set (node # todo). imported_modules s)"
    using imported_modules_unfold [of node] by auto
  finally show ?case .
qed

lemma disallowed_imports_eq:
  "disallowed_imports tree = {m \<in> snippet_imports tree. top_level m \<notin> ALLOWED_LIBRARIES}"
  by (simp add: disallowed_imports_def fold_check_node walk_modules snippet_imports_def)

lemma finite_imported_modules: "finite (imported_modules s)"
  by (induction s) (auto split: option.splits)

lemma finite_snippet_imports: "finite (snippet_imports tree)"
  by (simp add: snippet_imports_def finite_imported_modules)

lemma finite_disallowed_imports: "finite (disallowed_imports tree)"
  by (simp add: disallowed_imports_eq finite_snippet_imports)

lemma snippet_imports_strip_bare: "snippet_imports (strip_bare tree) = snippet_imports tree"
  by (induction tree rule: strip_bare.induct) (simp_all add: snippet_imports_def)

lemma disallowed_imports_strip_bare: "disallowed_imports (strip_bare tree) = disallowed_imports tree"
  by (simp add: disallowed_imports_eq snippet_imports_strip_bare)

lemma sorted_names:
  assumes "finite A"
  shows "sorted (sorted_list_of_set A) \<and> distinct (sorted_list_of_set A) \<and> set (sorted_list_of_set A) = A"
  using assms by simp

lemma top_level_scipy_stats: "top_level ''scipy.stats'' = ''scipy''"
  by (simp add: top_level_def)

lemma scipy_allowed: "''scipy'' \<in> ALLOWED_LIBRARIES"
  by (simp add: ALLOWED_LIBRARIES_def)

lemma top_level_plain: "CHR ''.'' \<notin> set m \<Longrightarrow> top_level m = m"
  by (auto simp: top_level_def)

lemma mixed_tree_imports:
  "snippet_imports [Import [\<lparr>name = ''json'', asname = None\<rparr>], Import [\<lparr>name = ''torch'', asname = None\<rparr>]]
     = {''json'', ''torch''}"
  by (auto simp: snippet_imports_def)

lemma torch_not_allowed: "''torch'' \<notin> ALLOWED_LIBRARIES"
  by (simp add: ALLOWED_LIBRARIES_def)

lemma json_allowed: "''json'' \<in> ALLOWED_LIBRARIES"
  by (simp add: ALLOWED_LIBRARIES_def)

lemma requests_not_allowed: "''requests'' \<notin> ALLOWED_LIBRARIES"
  by (simp add: ALLOWED_LIBRARIES_def)

lemma top_level_requests_adapters: "top_level ''requests.adapters'' = ''requests''"
  by (simp add: top_level_def)

subsection \<open>Accepted snippets\<close>

text \<open>
  Claim C5. When \<open>ast.parse\<close> returns a tree and the top-level segment (the text before
  the first dot) of every module the snippet imports is in the allow-list, the violation
  set is empty and \<open>validate_imports\<close> returns \<open>(True, "")\<close>, in both scripts.
\<close>

theorem validate_imports_accepts_allowed:
  assumes "ast_parse code = Module tree"
    and "\<forall>m \<in> snippet_imports tree. top_level m \<in> ALLOWED_LIBRARIES"
  shows "disallowed_imports tree = {}
       \<and> validate_imports ast_parse code = Inr (True, [])
       \<and> validate_imports_demo ast_parse code = Inr (True, [])"
proof -
  have "disallowed_imports tree = {}"
    using assms(2) by (auto simp: disallowed_imports_eq)
  then show ?thesis
    using assms(1) by (simp add: validate_imports_def validate_imports_demo_def)
qed

text \<open>
  The instance \<open>from scipy.stats import norm\<close>: \<open>scipy\<close> is allowed, \<open>stats\<close> and
  \<open>norm\<close> are not, and the snippet is accepted.
\<close>

theorem validate_imports_accepts_allowed_witness:
  "snippet_imports [ImportFrom (Some ''scipy.stats'') [\<lparr>name = ''norm'', asname = None\<rparr>] 0]
     = {''scipy.stats''}
   \<and> top_level ''scipy.stats'' \<in> ALLOWED_LIBRARIES
   \<and> ''stats'' \<notin> ALLOWED_LIBRARIES \<and> ''norm'' \<notin> ALLOWED_LIBRARIES
   \<and> validate_imports
        (\<lambda>_. Module [ImportFrom (Some ''scipy.stats'') [\<lparr>name = ''norm'', asname = None\<rparr>] 0])
        ''from scipy.stats import norm'' = Inr (True, [])"
proof -
  let ?tree = "[ImportFrom (Some ''scipy.stats'') [\<lparr>name = ''norm'', asname = None\<rparr>] 0]"
  have i: "snippet_imports ?tree = {''scipy.stats''}"
    by (simp add: snippet_imports_def)
  have t: "top_level ''scipy.stats'' \<in> ALLOWED_LIBRARIES"
    by (simp add: top_level_scipy_stats scipy_allowed)
  have h: "\<forall>m \<in> snippet_imports ?tree. top_level m \<in> ALLOWED_LIBRARIES"
    using i t by simp
  have n: "''stats'' \<notin> ALLOWED_LIBRARIES \<and> ''norm'' \<notin> ALLOWED_LIBRARIES"
    by (simp add: ALLOWED_LIBRARIES_def)
  have "validate_imports (\<lambda>_. Module ?tree) ''from scipy.stats import norm'' = Inr (True, [])"
    using h validate_imports_accepts_allowed [of "\<lambda>_. Module ?tree" "''from scipy.stats import norm''" ?tree]
    by simp
  with i t n show ?thesis
    by blast
qed

subsection \<open>Rejected snippets\<close>

text \<open>
  Claim C2, as the code has it. When \<open>ast.parse\<close> returns a tree and the snippet
  imports at least one module whose top-level segment is not in the allow-list, the
  violation set is exactly the set of the module names as written in the import
  statements (dotted names in full) whose top-level segment is not allowed, the verdict
  is \<open>False\<close>, and the message is the fixed prefix followed by these names, each once, in
  increasing lexicographic order, joined by a comma and a space; the demo script appends
  its fixed summary of the accepted libraries.
\<close>

theorem validate_imports_rejects_disallowed:
  assumes "ast_parse code = Module tree"
    and "\<exists>m \<in> snippet_imports tree. top_level m \<notin> ALLOWED_LIBRARIES"
  shows "disallowed_imports tree = {m \<in> snippet_imports tree. top_level m \<notin> ALLOWED_LIBRARIES}
       \<and> (\<exists>names. sorted names \<and> distinct names \<and> set names = disallowed_imports tree
            \<and> validate_imports ast_parse code
                = Inr (False, violation_prefix @ py_join '', '' names)
            \<and> validate_imports_demo ast_parse code
                = Inr (False, violation_prefix @ py_join '', '' names @ allowed_summary))"
proof -
  let ?names = "sorted_list_of_set (disallowed_imports tree)"
  have ne: "disallowed_imports tree \<noteq> {}"
    using assms(2) by (auto simp: disallowed_imports_eq)
  have "sorted ?names \<and> distinct ?names \<and> set ?names = disallowed_imports tree"
    by (rule sorted_names) (rule finite_disallowed_imports)
  moreover have "validate_imports ast_parse code
                   = Inr (False, violation_prefix @ py_join '', '' ?names)"
    using assms(1) ne by (simp add: validate_imports_def)
  moreover have "validate_imports_demo ast_parse code
                   = Inr (False, violation_prefix @ py_join '', '' ?names @ allowed_summary)"
    using assms(1) ne by (simp add: validate_imports_demo_def)
  ultimately show ?thesis
    using disallowed_imports_eq [of tree] by blast
qed

text \<open>The mixed snippet \<open>import json\<close>, \<open>import torch\<close>: only \<open>torch\<close> is a violation.\<close>

theorem validate_imports_rejects_disallowed_witness:
  "(\<exists>m \<in> snippet_imports [Import [\<lparr>name = ''json'', asname = None\<rparr>],
                            Import [\<lparr>name = ''torch'', asname = None\<rparr>]].
       top_level m \<notin> ALLOWED_LIBRARIES)
   \<and> disallowed_imports [Import [\<lparr>name = ''json'', asname = None\<rparr>],
                          Import [\<lparr>name = ''torch'', asname = None\<rparr>]] = {''torch''}"
proof -
  let ?tree = "[Import [\<lparr>name = ''json'', asname = None\<rparr>], Import [\<lparr>name = ''torch'', asname = None\<rparr>]]"
  have h: "\<exists>m \<in> snippet_imports ?tree. top_level m \<notin> ALLOWED_LIBRARIES"
    by (simp add: mixed_tree_imports top_level_plain torch_not_allowed)
  have "{m \<in> snippet_imports ?tree. top_level m \<notin> ALLOWED_LIBRARIES} = {''torch''}"
    unfolding mixed_tree_imports using torch_not_allowed json_allowed
    by (auto simp: top_level_plain)
  then show ?thesis
    using h validate_imports_rejects_disallowed [of "\<lambda>_. Module ?tree" "''import json; import torch''" ?tree]
    by simp
qed

text \<open>
  Claim C2, as the specification states it, fails: for \<open>import requests.adapters\<close> the
  violation set holds the dotted name \<open>requests.adapters\<close>, not the top-level name
  \<open>requests\<close>, and the message lists the dotted name.
\<close>

theorem violation_set_top_level_counterexample:
  "disallowed_imports [Import [\<lparr>name = ''requests.adapters'', asname = None\<rparr>]]
     = {''requests.adapters''}
   \<and> disallowed_top_level_names [Import [\<lparr>name = ''requests.adapters'', asname = None\<rparr>]]
     = {''requests''}
   \<and> disallowed_imports [Import [\<lparr>name = ''requests.adapters'', asname = None\<rparr>]]
     \<noteq> disallowed_top_level_names [Import [\<lparr>name = ''requests.adapters'', asname = None\<rparr>]]
   \<and> validate_imports (\<lambda>_. Module [Import [\<lparr>name = ''requests.adapters'', asname = None\<rparr>]])
        ''import requests.adapters''
     = Inr (False, violation_prefix @ ''requests.adapters'')"
proof -
  let ?tree = "[Import [\<lparr>name = ''requests.adapters'', asname = None\<rparr>]]"
  have imp: "snippet_imports ?tree = {''requests.adapters''}"
    by (simp add: snippet_imports_def)
  have d: "disallowed_imports ?tree = {''requests.adapters''}"
    unfolding disallowed_imports_eq imp
    using requests_not_allowed by (auto simp: top_level_requests_adapters)
  have t: "disallowed_top_level_names ?tree = {''requests''}"
    unfolding disallowed_top_level_names_def imp
    using requests_not_allowed by (auto simp: top_level_requests_adapters)
  have v: "validate_imports (\<lambda>_. Module ?tree) ''import requests.adapters''
             = Inr (False, violation_prefix @ ''requests.adapters'')"
    by (simp add: validate_imports_def d)
  show ?thesis
    unfolding d t using v by simp
qed

subsection \<open>Bare relative imports\<close>

text \<open>
  Claim C7. A from-import without a module name (\<open>from . import y\<close>) leaves the violation
  set as it is; removing every such statement from a tree, at any depth, changes neither
  the violation set nor the verdict; and a snippet in which nothing else remains is
  accepted.
\<close>

theorem bare_relative_import_skipped:
  "check_node (ImportFrom None names level) disallowed = disallowed
   \<and> disallowed_imports (strip_bare tree) = disallowed_imports tree
   \<and> validate_imports (\<lambda>_. Module tree) code = validate_imports (\<lambda>_. Module (strip_bare tree)) code
   \<and> (strip_bare tree = [] \<longrightarrow> validate_imports (\<lambda>_. Module tree) code = Inr (True, []))"
proof -
  have d: "disallowed_imports (strip_bare tree) = disallowed_imports tree"
    by (rule disallowed_imports_strip_bare)
  have e: "disallowed_imports [] = {}"
    by (simp add: disallowed_imports_def)
  have "strip_bare tree = [] \<longrightarrow> disallowed_imports tree = {}"
    using d e by metis
  then show ?thesis
    using d by (auto simp: validate_imports_def)
qed

text \<open>The snippet \<open>from . import y\<close> alone is accepted.\<close>

theorem bare_relative_import_skipped_witness:
  "strip_bare [ImportFrom None [\<lparr>name = ''y'', asname = None\<rparr>] 1] = []
   \<and> validate_imports (\<lambda>_. Module [ImportFrom None [\<lparr>name = ''y'', asname = None\<rparr>] 1])
        ''from . import y'' = Inr (True, [])"
proof -
  let ?tree = "[ImportFrom None [\<lparr>name = ''y'', asname = None\<rparr>] 1]"
  have s: "strip_bare ?tree = []"
    by simp
  have "strip_bare ?tree = []
          \<longrightarrow> validate_imports (\<lambda>_. Module ?tree) ''from . import y'' = Inr (True, [])"
    using bare_relative_import_skipped [of "[]" 0 "{}" ?tree "''from . import y''"]
    by blast
  with s show ?thesis
    by blast
qed

subsection \<open>Syntax errors\<close>

text \<open>
  Claim C8, as the code has it. When \<open>ast.parse\<close> raises \<open>SyntaxError\<close>,
  \<open>validate_imports\<close> returns \<open>False\<close> with the text \<open>Syntax error in code:\<close> followed
  by the description of the error, and the message is not an import violation message.
  When the parser refuses the snippet with another exception, that exception leaves
  \<open>validate_imports\<close> and no verdict is returned. In neither case is the snippet accepted.
\<close>

theorem syntax_error_rejected:
  "(ast_parse code = SyntaxError e \<longrightarrow>
      validate_imports ast_parse code = Inr (False, ''Syntax error in code: '' @ e)
      \<and> validate_imports_demo ast_parse code = Inr (False, ''Syntax error in code: '' @ e)
      \<and> \<not> prefix violation_prefix (''Syntax error in code: '' @ e))
   \<and> (ast_parse code = ParseRaises x \<longrightarrow>
      validate_imports ast_parse code = Inl x
      \<and> validate_imports_demo ast_parse code = Inl x)
   \<and> ((\<forall>tree. ast_parse code \<noteq> Module tree) \<longrightarrow>
      (\<forall>msg. validate_imports ast_parse code \<noteq> Inr (True, msg)
             \<and> validate_imports_demo ast_parse code \<noteq> Inr (True, msg)))"
proof (intro conjI impI allI)
  assume "ast_parse code = SyntaxError e"
  then show "validate_imports ast_parse code = Inr (False, ''Syntax error in code: '' @ e)"
    and "validate_imports_demo ast_parse code = Inr (False, ''Syntax error in code: '' @ e)"
    by (simp_all add: validate_imports_def validate_imports_demo_def)
next
  show "\<not> prefix violation_prefix (''Syntax error in code: '' @ e)"
    by (simp add: violation_prefix_def)
next
  assume "ast_parse code = ParseRaises x"
  then show "validate_imports ast_parse code = Inl x"
    and "validate_imports_demo ast_parse code = Inl x"
    by (simp_all add: validate_imports_def validate_imports_demo_def)
next
  fix msg
  assume n: "\<forall>tree. ast_parse code \<noteq> Module tree"
  then show "validate_imports ast_parse code \<noteq> Inr (True, msg)"
    by (cases "ast_parse code") (simp_all add: validate_imports_def)
  from n show "validate_imports_demo ast_parse code \<noteq> Inr (True, msg)"
    by (cases "ast_parse code") (simp_all add: validate_imports_demo_def)
qed

text \<open>A parser that reports \<open>invalid syntax\<close> for the text \<open>import\<close>.\<close>

theorem syntax_error_rejected_witness:
  "validate_imports (\<lambda>_. SyntaxError ''invalid syntax (<unknown>, line 1)'') ''import''
     = Inr (False, ''Syntax error in code: invalid syntax (<unknown>, line 1)'')"
proof -
  have "(\<lambda>_. SyntaxError ''invalid syntax (<unknown>, line 1)'') ''import''
          = SyntaxError ''invalid syntax (<unknown>, line 1)''"
    by simp
  with syntax_error_rejected
         [where ast_parse = "\<lambda>_. SyntaxError ''invalid syntax (<unknown>, line 1)''"
            and code = "''import''" and e = "''invalid syntax (<unknown>, line 1)''"]
  show ?thesis
    by simp
qed

text \<open>
  Claim C8, as the specification states it, fails. A snippet that holds a NUL byte is
  refused by \<open>ast.parse\<close> of Python before 3.12 with \<open>ValueError\<close> (as a lone surrogate
  is refused with \<open>UnicodeEncodeError\<close>); only \<open>SyntaxError\<close> is caught, so
  \<open>validate_imports\<close> returns no rejection: the exception leaves it.
\<close>

theorem parse_failure_counterexample:
  "validate_imports
     (\<lambda>_. ParseRaises ''ValueError: source code string cannot contain null bytes'')
     [CHR 0x00]
     = Inl ''ValueError: source code string cannot contain null bytes''"
  by (simp add: validate_imports_def)

subsection \<open>Alias and distribution names in the allow-list\<close>

text \<open>
  Claim C9. The allow-list contains \<open>np\<close>, \<open>pd\<close>, \<open>plt\<close>, \<open>scikit-learn\<close>,
  \<open>python-docx\<close>, \<open>python-pptx\<close> and \<open>python-magic\<close>; and for each of \<open>np\<close>,
  \<open>pd\<close>, \<open>plt\<close>, when \<open>ast.parse\<close> reads \<open>import n\<close> as the plain import of the
  module \<open>n\<close>, the violation set is empty and the snippet is accepted.
\<close>

theorem alias_names_allowed:
  "{''np'', ''pd'', ''plt'', ''scikit-learn'', ''python-docx'', ''python-pptx'', ''python-magic''}
     \<subseteq> ALLOWED_LIBRARIES
   \<and> (\<forall>n \<in> {''np'', ''pd'', ''plt''}.
        ast_parse (''import '' @ n) = Module [Import [\<lparr>name = n, asname = None\<rparr>]]
        \<longrightarrow> disallowed_imports [Import [\<lparr>name = n, asname = None\<rparr>]] = {}
            \<and> validate_imports ast_parse (''import '' @ n) = Inr (True, []))"
proof -
  have a: "{''np'', ''pd'', ''plt'', ''scikit-learn'', ''python-docx'', ''python-pptx'', ''python-magic''}
             \<subseteq> ALLOWED_LIBRARIES"
    by (simp add: ALLOWED_LIBRARIES_def)
  have d: "disallowed_imports [Import [\<lparr>name = n, asname = None\<rparr>]] = {}"
    if "n \<in> {''np'', ''pd'', ''plt''}" for n
    using that a
    by (auto simp: disallowed_imports_def check_alias_def split_first_def)
  show ?thesis
    using a d by (auto simp: validate_imports_def)
qed

text \<open>The snippet \<open>import np\<close>.\<close>

theorem alias_names_allowed_witness:
  "validate_imports (\<lambda>_. Module [Import [\<lparr>name = ''np'', asname = None\<rparr>]]) ''import np''
     = Inr (True, [])"
  using alias_names_allowed [of "\<lambda>_. Module [Import [\<lparr>name = ''np'', asname = None\<rparr>]]"]
  by simp

section \<open>Properties of the Docker sandbox\<close>

subsection \<open>The result of \<open>execute_code\<close> in terms of its body\<close>

lemma execute_code_fst:
  "fst (execute_code w self code context d) =
     (case script_exists w of
        Inl e \<Rightarrow> Inl e
      | Inr found \<Rightarrow>
          (case fst (execute_try w self (script_path_of w self) code context d) of
             Inr out \<Rightarrow> Inr out
           | Inl e \<Rightarrow> execute_except w e))"
  by (simp add: execute_code_def Let_def split: prod.splits sum.splits)

lemma execute_code_calls:
  "calls (snd (execute_code w self code context d)) =
     calls (snd (execute_try w self (script_path_of w self) code context d))
     @ (case script_exists w of Inr True \<Rightarrow> [Unlink (script_path_of w self)] | _ \<Rightarrow> [])"
  by (simp add: execute_code_def log_def Let_def split: prod.splits sum.splits)

lemma execute_code_containers:
  "containers (snd (execute_code w self code context d)) =
     containers (snd (execute_try w self (script_path_of w self) code context d))"
  by (simp add: execute_code_def log_def Let_def split: prod.splits sum.splits)








subsection \<open>Faults are returned as text\<close>





subsection \<open>Timeouts\<close>

lemma calls_log [simp]: "calls (log c d) = calls d @ [c]"
  by (simp add: log_def)

lemma containers_log [simp]: "containers (log c d) = containers d"
  by (simp add: log_def)

text \<open>The exception that \<open>wait\<close> raises when the container outlives the timeout.\<close>

lemma container_wait_timeout:
  assumes "run_time w = None \<or> (\<exists>seconds. run_time w = Some seconds \<and> t < seconds)"
  shows "container_wait w t
           = Inl (if t \<le> 0 then OtherException ''ValueError'' else WaitTimeout)"
  using assms by (auto simp: container_wait_def)

lemma container_run_wait_raises:
  assumes "start_raises w = None"
    and "container_wait w (timeout self) = Inl e"
  shows "container_run w self c d
           = (Inl e, log (ContainerWait c (timeout self)) (log (ContainerStart c) d))"
  using assms by (simp add: container_run_def Let_def)

lemma execute_try_wait_raises:
  assumes "write_text_raises w = None" and "create_result w = Inr c"
    and "start_raises w = None"
    and "container_wait w (timeout self) = Inl e"
  shows "fst (execute_try w self p code context d) = Inl e"
    and "calls (snd (execute_try w self p code context d))
           = calls d @ [WriteText p (prepare_script w code context),
                        ContainersCreate (create_kwargs self p),
                        ContainerStart c,
                        ContainerWait c (timeout self),
                        ContainerRemove c]"
    and "remove_raises w = None \<Longrightarrow> c \<notin> containers (snd (execute_try w self p code context d))"
  using assms
  by (simp_all add: execute_try_def container_run_wait_raises container_remove_def Let_def
        split: option.splits)

text \<open>
  Claim C3, as the code has it. When the script is written, the container is created and
  started, and it runs longer than the configured timeout, the body of \<open>execute_code\<close>
  ends in the catch-all handler: the method returns the text \<open>ERROR:\<close>,
  \<open>Unexpected error:\<close> and the traceback of the exception that \<open>wait\<close> raised (the
  timeout; \<open>ValueError\<close> when the configured timeout is 0 or less), which is not the text of
  the \<open>ContainerError\<close> handler, unless the concluding \<open>script_path.exists()\<close> raises, and
  then that exception leaves the method. The calls made are write, create, start, wait,
  remove, and the unlinking of the script when it exists; and the container is gone when
  the removal does not raise.
\<close>

theorem timeout_returns_unexpected_error:
  assumes "write_text_raises w = None" and "create_result w = Inr c"
    and "start_raises w = None"
    and "run_time w = None \<or> (\<exists>seconds. run_time w = Some seconds \<and> timeout self < seconds)"
  shows "fst (execute_code w self code context d)
           = (case script_exists w of
                Inl e \<Rightarrow> Inl e
              | Inr found \<Rightarrow>
                  Inr (''ERROR:'' @ nl @ ''Unexpected error:'' @ nl
                       @ format_exc w (if timeout self \<le> 0 then OtherException ''ValueError''
                                       else WaitTimeout)))
       \<and> \<not> prefix ''EXECUTION ERROR:''
             (''ERROR:'' @ nl @ ''Unexpected error:'' @ nl
              @ format_exc w (if timeout self \<le> 0 then OtherException ''ValueError''
                              else WaitTimeout))
       \<and> calls (snd (execute_code w self code context d))
           = calls d @ [WriteText (script_path_of w self) (prepare_script w code context),
                        ContainersCreate (create_kwargs self (script_path_of w self)),
                        ContainerStart c,
                        ContainerWait c (timeout self),
                        ContainerRemove c]
               @ (case script_exists w of
                    Inr True \<Rightarrow> [Unlink (script_path_of w self)]
                  | _ \<Rightarrow> [])
       \<and> (remove_raises w = None \<longrightarrow> c \<notin> containers (snd (execute_code w self code context d)))"
proof -
  let ?e = "if timeout self \<le> 0 then OtherException ''ValueError'' else WaitTimeout"
  have t: "container_wait w (timeout self) = Inl ?e"
    using assms(4) by (rule container_wait_timeout)
  note tr = execute_try_wait_raises [OF assms(1-3) t, of "script_path_of w self" code "context" d]
  have "fst (execute_code w self code context d)
          = (case script_exists w of
               Inl e \<Rightarrow> Inl e
             | Inr found \<Rightarrow> Inr (''ERROR:'' @ nl @ ''Unexpected error:'' @ nl @ format_exc w ?e))"
    unfolding execute_code_fst tr(1) by (simp add: execute_except_def split: sum.splits)
  moreover have "\<not> prefix ''EXECUTION ERROR:''
                   (''ERROR:'' @ nl @ ''Unexpected error:'' @ nl @ format_exc w ?e)"
    by simp
  moreover have "calls (snd (execute_code w self code context d))
           = calls d @ [WriteText (script_path_of w self) (prepare_script w code context),
                        ContainersCreate (create_kwargs self (script_path_of w self)),
                        ContainerStart c,
                        ContainerWait c (timeout self),
                        ContainerRemove c]
               @ (case script_exists w of
                    Inr True \<Rightarrow> [Unlink (script_path_of w self)]
                  | _ \<Rightarrow> [])"
    by (simp add: execute_code_calls tr(2))
  moreover have "remove_raises w = None \<longrightarrow> c \<notin> containers (snd (execute_code w self code context d))"
    using tr(3) by (simp add: execute_code_containers)
  ultimately show ?thesis
    by blast
qed

text \<open>A container that runs 31 seconds under the default timeout of 30.\<close>

theorem timeout_returns_unexpected_error_witness:
  "run_time world_timeout = Some 31 \<and> timeout example_executor = 30
   \<and> fst (execute_code world_timeout example_executor ''print(2+2)'' None no_daemon)
       = Inr (''ERROR:'' @ nl @ ''Unexpected error:'' @ nl @ ''Traceback (most recent call last): ...'')
   \<and> 7 \<notin> containers (snd (execute_code world_timeout example_executor ''print(2+2)'' None no_daemon))"
proof -
  have a: "write_text_raises world_timeout = None" "create_result world_timeout = Inr 7"
    "start_raises world_timeout = None" "remove_raises world_timeout = None"
    "format_exc world_timeout WaitTimeout = ''Traceback (most recent call last): ...''"
    "script_exists world_timeout = Inr True"
    by (simp_all add: world_timeout_def world_ok_def)
  have r: "run_time world_timeout = Some 31" and t: "timeout example_executor = 30"
    by (simp_all add: world_timeout_def world_ok_def example_executor_def)
  have h: "run_time world_timeout = None
             \<or> (\<exists>seconds. run_time world_timeout = Some seconds \<and> timeout example_executor < seconds)"
    by (simp add: r t)
  show ?thesis
    using timeout_returns_unexpected_error
            [OF a(1) a(2) a(3) h, of "''print(2+2)''" None no_daemon] a(4) a(5) a(6) r t
    by simp
qed

text \<open>
  A timed-out run and a run that completes with exit status 0 and prints the same text
  return the same value.
\<close>

lemma world_echo_completes:
  "container_wait world_echo (timeout example_executor) = Inr 0"
  by (simp add: container_wait_def world_echo_def world_ok_def example_executor_def)

lemma world_timeout_times_out:
  "container_wait world_timeout (timeout example_executor) = Inl WaitTimeout"
  by (simp add: container_wait_def world_timeout_def world_ok_def example_executor_def)

lemma execute_world_timeout:
  "fst (execute_code world_timeout example_executor ''print(2+2)'' None no_daemon)
     = Inr (''ERROR:'' @ nl @ ''Unexpected error:'' @ nl @ ''Traceback (most recent call last): ...'')"
proof -
  have "fst (execute_try world_timeout example_executor
               (script_path_of world_timeout example_executor) ''print(2+2)'' None no_daemon)
          = Inl WaitTimeout"
    by (rule execute_try_wait_raises(1) [OF _ _ _ world_timeout_times_out])
       (simp_all add: world_timeout_def world_ok_def)
  then show ?thesis
    by (simp add: execute_code_fst execute_except_def world_timeout_def world_ok_def)
qed

lemma execute_world_echo:
  "fst (execute_code world_echo example_executor ''print(2+2)'' None no_daemon)
     = Inr (''ERROR:'' @ nl @ ''Unexpected error:'' @ nl @ ''Traceback (most recent call last): ...'')"
proof -
  have "fst (execute_try world_echo example_executor
               (script_path_of world_echo example_executor) ''print(2+2)'' None no_daemon)
          = Inr (''ERROR:'' @ nl @ ''Unexpected error:'' @ nl @ ''Traceback (most recent call last): ...'')"
    using world_echo_completes
    by (simp add: execute_try_def container_run_def Let_def world_echo_def world_ok_def
          split: prod.splits)
  then show ?thesis
    by (simp add: execute_code_fst world_echo_def world_ok_def)
qed

text \<open>
  Claim C3, as the specification states it, fails: the value returned after a timeout
  carries no status \<open>Timeout\<close>. It is the text of the catch-all handler, and it is equal to
  the value returned by a run that ends in time with exit status 0.
\<close>

theorem timeout_status_counterexample:
  "container_wait world_timeout (timeout example_executor) = Inl WaitTimeout
   \<and> container_wait world_echo (timeout example_executor) = Inr 0
   \<and> fst (execute_code world_timeout example_executor ''print(2+2)'' None no_daemon)
       = Inr (''ERROR:'' @ nl @ ''Unexpected error:'' @ nl @ ''Traceback (most recent call last): ...'')
   \<and> fst (execute_code world_timeout example_executor ''print(2+2)'' None no_daemon)
       = fst (execute_code world_echo example_executor ''print(2+2)'' None no_daemon)"
  by (simp add: world_timeout_times_out world_echo_completes execute_world_timeout execute_world_echo)

subsection \<open>What a fault returns, and what it does not\<close>





subsection \<open>Completed executions and the exit code\<close>











subsection \<open>The session id in the context dictionary\<close>

lemma update_missing_key: "k \<notin> fst ` set al \<Longrightarrow> AList.update k v al = al @ [(k, v)]"
  by (induction al) auto

lemma dict_set_missing_key:
  "map_of d k = None \<Longrightarrow> dict_set d k v = d @ [(k, v)]"
  by (simp add: dict_set_def update_missing_key map_of_eq_None_iff)

lemma interpreter_context:
  "fst (snd (sandboxed_python_interpreter w code ctx sid_arg img tag d))
     = snd (resolve_session_id w ctx sid_arg)"
  by (simp add: sandboxed_python_interpreter_def Let_def split: prod.splits sum.splits)

text \<open>
  Claim C10. Called without a session id and with a dictionary that lacks the key
  \<open>__sandbox_session_id__\<close>, \<open>sandboxed_python_interpreter\<close> leaves the caller's
  dictionary with the fresh id appended under that key and everything else as it was, and a
  later call with that dictionary, in any world, resolves to the same id and does not
  change the dictionary; called with a session id, it leaves the dictionary unchanged.
\<close>

theorem session_id_resolution:
  "(sid_arg = PyNone \<and> map_of ctx SESSION_KEY = None \<longrightarrow>
      resolve_session_id w ctx sid_arg
        = (PyStr (uuid4_str w), ctx @ [(SESSION_KEY, PyStr (uuid4_str w))])
      \<and> fst (snd (sandboxed_python_interpreter w code ctx sid_arg img tag d))
        = ctx @ [(SESSION_KEY, PyStr (uuid4_str w))]
      \<and> resolve_session_id w' (ctx @ [(SESSION_KEY, PyStr (uuid4_str w))]) PyNone
        = (PyStr (uuid4_str w), ctx @ [(SESSION_KEY, PyStr (uuid4_str w))]))
   \<and> (sid_arg \<noteq> PyNone \<longrightarrow>
      resolve_session_id w ctx sid_arg = (sid_arg, ctx)
      \<and> fst (snd (sandboxed_python_interpreter w code ctx sid_arg img tag d)) = ctx)"
proof (intro conjI impI)
  assume a: "sid_arg = PyNone \<and> map_of ctx SESSION_KEY = None"
  then show r: "resolve_session_id w ctx sid_arg
        = (PyStr (uuid4_str w), ctx @ [(SESSION_KEY, PyStr (uuid4_str w))])"
    by (simp add: resolve_session_id_def dict_get_def dict_set_missing_key)
  then show "fst (snd (sandboxed_python_interpreter w code ctx sid_arg img tag d))
        = ctx @ [(SESSION_KEY, PyStr (uuid4_str w))]"
    by (simp add: interpreter_context)
  from a show "resolve_session_id w' (ctx @ [(SESSION_KEY, PyStr (uuid4_str w))]) PyNone
        = (PyStr (uuid4_str w), ctx @ [(SESSION_KEY, PyStr (uuid4_str w))])"
    by (simp add: resolve_session_id_def dict_get_def map_add_def Let_def)
next
  assume b: "sid_arg \<noteq> PyNone"
  then show r: "resolve_session_id w ctx sid_arg = (sid_arg, ctx)"
    by (simp add: resolve_session_id_def)
  then show "fst (snd (sandboxed_python_interpreter w code ctx sid_arg img tag d)) = ctx"
    by (simp add: interpreter_context)
qed

text \<open>A dictionary holding \<open>x\<close>, without and with a session id supplied.\<close>

theorem session_id_resolution_witness:
  "fst (snd (sandboxed_python_interpreter world_ok ''print(2+2)'' [(''x'', PyInt 1)] PyNone
               ''dolphin-python-sandbox'' ''latest'' no_daemon))
     = [(''x'', PyInt 1), (SESSION_KEY, PyStr ''6f1c2a9e-0d3b-4c57-9a41-2f8e7b6d5c10'')]
   \<and> fst (snd (sandboxed_python_interpreter world_ok ''print(2+2)'' [(''x'', PyInt 1)] (PyStr ''s1'')
               ''dolphin-python-sandbox'' ''latest'' no_daemon))
     = [(''x'', PyInt 1)]"
proof -
  have k: "map_of [(''x'', PyInt 1)] SESSION_KEY = None"
    by (simp add: SESSION_KEY_def)
  have u: "uuid4_str world_ok = ''6f1c2a9e-0d3b-4c57-9a41-2f8e7b6d5c10''"
    by (simp add: world_ok_def)
  have "fst (snd (sandboxed_python_interpreter world_ok ''print(2+2)'' [(''x'', PyInt 1)] PyNone
               ''dolphin-python-sandbox'' ''latest'' no_daemon))
     = [(''x'', PyInt 1)] @ [(SESSION_KEY, PyStr (uuid4_str world_ok))]"
    using session_id_resolution
            [where sid_arg = PyNone and ctx = "[(''x'', PyInt 1)]" and w = world_ok
               and code = "''print(2+2)''" and img = "''dolphin-python-sandbox''"
               and tag = "''latest''" and d = no_daemon] k
    by blast
  moreover have "fst (snd (sandboxed_python_interpreter world_ok ''print(2+2)'' [(''x'', PyInt 1)]
               (PyStr ''s1'') ''dolphin-python-sandbox'' ''latest'' no_daemon))
     = [(''x'', PyInt 1)]"
    using session_id_resolution
            [where sid_arg = "PyStr ''s1''" and ctx = "[(''x'', PyInt 1)]" and w = world_ok
               and code = "''print(2+2)''" and img = "''dolphin-python-sandbox''"
               and tag = "''latest''" and d = no_daemon]
    by blast
  ultimately show ?thesis
    by (simp add: u)
qed

subsection \<open>Reading a file of the session\<close>

lemma example_session_dir:
  "parse_path ''/tmp/sandboxes/s1'' = \<lparr>anchor = Root, parts = [''tmp'', ''sandboxes'', ''s1'']\<rparr>"
  by (simp add: parse_path_def parse_anchor_def)

lemma parse_traversal:
  "parse_path ''../s2/secret.txt'' = \<lparr>anchor = Relative, parts = [''..'', ''s2'', ''secret.txt'']\<rparr>"
  by (simp add: parse_path_def parse_anchor_def)

lemma traversal_path:
  "joinpath (parse_path ''/tmp/sandboxes/s1'') (parse_path ''../s2/secret.txt'')
     = \<lparr>anchor = Root, parts = [''tmp'', ''sandboxes'', ''s1'', ''..'', ''s2'', ''secret.txt'']\<rparr>"
  by (simp add: example_session_dir parse_traversal joinpath_def)

lemma traversal_path_str:
  "path_str \<lparr>anchor = Root, parts = [''tmp'', ''sandboxes'', ''s1'', ''..'', ''s2'', ''secret.txt'']\<rparr>
     = ''/tmp/sandboxes/s1/../s2/secret.txt''"
  by (simp add: path_str_def)

lemma traversal_resolves_outside:
  "os_lookup example_fs (joinpath (parse_path ''/tmp/sandboxes/s1'') (parse_path ''../s2/secret.txt''))
     = Inr [''tmp'', ''sandboxes'', ''s2'', ''secret.txt'']"
  unfolding traversal_path os_lookup_def traversal_path_str
  by (simp add: PATH_MAX_def node_at_def example_fs_def NAME_MAX_def)

text \<open>
  Claim C1 fails on the code. For the session directory \<open>/tmp/sandboxes/s1\<close> and the name
  \<open>../s2/secret.txt\<close>, the path resolves to \<open>/tmp/sandboxes/s2/secret.txt\<close>, outside the
  session directory; \<open>is_relative_to\<close> compares the unresolved components and holds; and
  \<open>read_session_file\<close> returns the content of the other session's file instead of
  raising \<open>ValueError\<close>.
\<close>

theorem read_session_file_traversal_escapes:
  "os_lookup example_fs (joinpath (parse_path ''/tmp/sandboxes/s1'') (parse_path ''../s2/secret.txt''))
     = Inr [''tmp'', ''sandboxes'', ''s2'', ''secret.txt'']
   \<and> \<not> prefix [''tmp'', ''sandboxes'', ''s1''] [''tmp'', ''sandboxes'', ''s2'', ''secret.txt'']
   \<and> is_relative_to
         (joinpath (parse_path ''/tmp/sandboxes/s1'') (parse_path ''../s2/secret.txt''))
         (parse_path ''/tmp/sandboxes/s1'')
   \<and> read_session_file example_fs (parse_path ''/tmp/sandboxes/s1'') ''../s2/secret.txt''
       = Inr ''top secret''"
proof -
  have r: "is_relative_to
         (joinpath (parse_path ''/tmp/sandboxes/s1'') (parse_path ''../s2/secret.txt''))
         (parse_path ''/tmp/sandboxes/s1'')"
    unfolding traversal_path by (simp add: example_session_dir is_relative_to_def)
  have n: "node_at example_fs [''tmp'', ''sandboxes'', ''s2'', ''secret.txt''] = Some (File ''top secret'')"
    by (simp add: node_at_def example_fs_def)
  have d: "denied example_fs = {}" "decode_text example_fs ''top secret'' = Some ''top secret''"
    by (simp_all add: example_fs_def)
  have u: "universal_newlines ''top secret'' = ''top secret''"
    by simp
  have "read_session_file example_fs (parse_path ''/tmp/sandboxes/s1'') ''../s2/secret.txt''
       = Inr ''top secret''"
    using r
    by (simp add: read_session_file_def path_exists_def read_text_def traversal_resolves_outside
          n d u)
  then show ?thesis
    using r traversal_resolves_outside by simp
qed

text \<open>
  The rest of the claim holds: an absent file gives \<open>FileNotFoundError\<close>, and a path that
  exists and is not below the session directory as written (an absolute name, for one)
  gives \<open>ValueError\<close>.
\<close>

lemma read_session_file_absent:
  assumes "path_exists fs (joinpath sdir (parse_path filename)) = Inr False"
  shows "read_session_file fs sdir filename
           = Inl (FileNotFoundError (''File not found: '' @ filename))"
  using assms by (simp add: read_session_file_def)

lemma read_session_file_lexical_escape:
  assumes "path_exists fs (joinpath sdir (parse_path filename)) = Inr True"
    and "\<not> is_relative_to (joinpath sdir (parse_path filename)) sdir"
  shows "read_session_file fs sdir filename
           = Inl (ValueError ''Path traversal attempt detected'')"
  using assms by (simp add: read_session_file_def)

lemma read_session_file_absolute_injection:
  "read_session_file example_fs (parse_path ''/tmp/sandboxes/s1'') ''/etc/passwd''
     = Inl (ValueError ''Path traversal attempt detected'')"
proof -
  have p: "joinpath (parse_path ''/tmp/sandboxes/s1'') (parse_path ''/etc/passwd'')
             = \<lparr>anchor = Root, parts = [''etc'', ''passwd'']\<rparr>"
    by (simp add: parse_path_def parse_anchor_def joinpath_def)
  have s: "path_str \<lparr>anchor = Root, parts = [''etc'', ''passwd'']\<rparr> = ''/etc/passwd''"
    by (simp add: path_str_def)
  have e: "path_exists example_fs \<lparr>anchor = Root, parts = [''etc'', ''passwd'']\<rparr> = Inr True"
    unfolding path_exists_def os_lookup_def s
    by (simp add: PATH_MAX_def node_at_def example_fs_def NAME_MAX_def)
  have "\<not> is_relative_to \<lparr>anchor = Root, parts = [''etc'', ''passwd'']\<rparr>
            (parse_path ''/tmp/sandboxes/s1'')"
    by (simp add: is_relative_to_def example_session_dir)
  with e show ?thesis
    unfolding read_session_file_def p by simp
qed

end
